theory Spec2Isabelle
  imports Main "HOL-Library.Word"
begin

unbundle bit_operations_syntax

section \<open>The 4-relay board command-line tool (relay.c)\<close>

text \<open>
  The embedding follows \<^verbatim>\<open>src/relay.c\<close>. A \<^verbatim>\<open>u8\<close> is an 8-bit word, a C \<^verbatim>\<open>int\<close> whose
  value stays small is an \<^typ>\<open>int\<close>. Console output (\<^verbatim>\<open>printf\<close>) and the optional result
  file are left out; \<^verbatim>\<open>exit(1)\<close> is a result value.
\<close>

type_synonym u8 = "8 word"

subsection \<open>Constants of relay.h\<close>

text \<open>
  Modelled from the spec: the header \<^verbatim>\<open>relay.h\<close> is not among the sources. The spec gives
  four relay and four input channels numbered from 1, the states OFF = 0 and ON = 1 followed by
  an invalid sentinel, and a retry budget of 10. The register numbers are those of the
  input-port, output-port and direction-configuration registers of the expander; only their
  being distinct bytes matters below.
\<close>

definition RELAY_CH_NR_MAX :: nat where "RELAY_CH_NR_MAX = 4"
definition IN_CH_NR_MAX :: nat where "IN_CH_NR_MAX = 4"
definition CHANNEL_NR_MIN :: nat where "CHANNEL_NR_MIN = 1"
definition RETRY_TIMES :: nat where "RETRY_TIMES = 10"

definition OFF :: int where "OFF = 0"
definition ON :: int where "ON = 1"
definition STATE_COUNT :: int where "STATE_COUNT = 2"

definition RELAY8_INPORT_REG_ADD :: u8 where "RELAY8_INPORT_REG_ADD = 0x00"
definition RELAY8_OUTPORT_REG_ADD :: u8 where "RELAY8_OUTPORT_REG_ADD = 0x01"
definition RELAY8_CFG_REG_ADD :: u8 where "RELAY8_CFG_REG_ADD = 0x03"

subsection \<open>Remap tables (relay.c lines 27-52)\<close>

definition relayMaskRemap :: "u8 list" where
  "relayMaskRemap = [0x80, 0x40, 0x20, 0x10]"

definition relayChRemap :: "nat list" where
  "relayChRemap = [7, 6, 5, 4]"

definition inMaskRemap :: "u8 list" where
  "inMaskRemap = [0x08, 0x04, 0x02, 0x01]"

definition inChRemap :: "nat list" where
  "inChRemap = [3, 2, 1, 0]"

subsection \<open>Bit remapping (relay.c lines 178-216)\<close>

text \<open>Each \<^verbatim>\<open>for (i = 0; i < 4; i++)\<close> loop is a fold over \<open>[0..<4]\<close> with \<open>val\<close> as accumulator.\<close>

definition relayToIO :: "u8 \<Rightarrow> u8" where
  "relayToIO relay =
     fold (\<lambda>i val. if relay AND push_bit i 1 \<noteq> 0 then val + relayMaskRemap ! i else val)
       [0..<RELAY_CH_NR_MAX] 0"

definition IOToRelay :: "u8 \<Rightarrow> u8" where
  "IOToRelay io =
     fold (\<lambda>i val. if io AND relayMaskRemap ! i \<noteq> 0 then val + push_bit i 1 else val)
       [0..<RELAY_CH_NR_MAX] 0"

definition IOToIn :: "u8 \<Rightarrow> u8" where
  "IOToIn io =
     fold (\<lambda>i val. if io AND inMaskRemap ! i = 0 then val + push_bit i 1 else val)
       [0..<IN_CH_NR_MAX] 0"

subsection \<open>Stack addressing (relay.c lines 367-368, 695-696 and 403)\<close>

text \<open>
  \<^verbatim>\<open>st\<close> is a \<^verbatim>\<open>uint8_t\<close> assigned from an \<^verbatim>\<open>int\<close> expression, hence the conversion to a word.
  The base address \<^verbatim>\<open>RELAY8_HW_I2C_BASE_ADD\<close> comes from the missing header and is a parameter.
\<close>

definition stackSt :: "int \<Rightarrow> u8" where
  "stackSt stack = word_of_int ((stack AND 0x02) + (0x01 AND drop_bit 2 stack) + (0x04 AND push_bit 2 stack))"

text \<open>The address \<^verbatim>\<open>add\<close> that \<^verbatim>\<open>doBoardInit\<close> hands to \<^verbatim>\<open>i2cSetup\<close>.\<close>

definition boardAddress :: "int \<Rightarrow> int \<Rightarrow> int" where
  "boardAddress base stack = (uint (stackSt stack) + base) XOR 0x07"

text \<open>The address \<^verbatim>\<open>doList\<close> probes: \<^verbatim>\<open>boardCheck(base + st)\<close>, which starts with \<^verbatim>\<open>hwAdd ^= 0x07\<close>.\<close>

definition probeAddress :: "int \<Rightarrow> int \<Rightarrow> int" where
  "probeAddress base i = (base + uint (stackSt i)) XOR 0x07"

subsection \<open>The bus and the key-press thread as collaborators\<close>

text \<open>
  Modelled from the spec: \<^verbatim>\<open>comm.c\<close> and \<^verbatim>\<open>thread.c\<close> are not among the sources. The spec
  treats them as opaque synchronous collaborators, \<^verbatim>\<open>readRegister -> bytes | fail\<close> and
  \<^verbatim>\<open>writeRegister -> ok | fail\<close>. Every call is recorded, with its answer, in a trace; the
  answer of a call is an arbitrary function of the trace so far, so any deterministic bus (a
  perfect board, a noisy line, a scripted mock) is one value of \<open>env\<close>. A failed transfer is
  \<open>None\<close> or \<open>False\<close>, whichever of \<^verbatim>\<open>FAIL\<close>, \<^verbatim>\<open>ERROR\<close> or a negative value the caller compares
  against.
\<close>

datatype event =
    Setup int int
  | Read int u8 "u8 option"
  | Write int u8 u8 bool
  | StartThread
  | CheckThread int
  | BusyWait nat

type_synonym trace = "event list"

record env =
  setup_resp :: "trace \<Rightarrow> int \<Rightarrow> int"
  read_resp :: "trace \<Rightarrow> int \<Rightarrow> u8 \<Rightarrow> u8 option"
  write_resp :: "trace \<Rightarrow> int \<Rightarrow> u8 \<Rightarrow> u8 \<Rightarrow> bool"
  thread_resp :: "trace \<Rightarrow> int"

definition i2cSetup :: "env \<Rightarrow> int \<Rightarrow> trace \<Rightarrow> int \<times> trace" where
  "i2cSetup e add tr = (let dev = setup_resp e tr add in (dev, tr @ [Setup add dev]))"

definition i2cMem8Read :: "env \<Rightarrow> int \<Rightarrow> u8 \<Rightarrow> trace \<Rightarrow> u8 option \<times> trace" where
  "i2cMem8Read e dev reg tr = (let r = read_resp e tr dev reg in (r, tr @ [Read dev reg r]))"

definition i2cMem8Write :: "env \<Rightarrow> int \<Rightarrow> u8 \<Rightarrow> u8 \<Rightarrow> trace \<Rightarrow> bool \<times> trace" where
  "i2cMem8Write e dev reg v tr = (let ok = write_resp e tr dev reg v in (ok, tr @ [Write dev reg v ok]))"


definition checkThreadResult :: "env \<Rightarrow> trace \<Rightarrow> int \<times> trace" where
  "checkThreadResult e tr = (let r = thread_resp e tr in (r, tr @ [CheckThread r]))"

definition busyWait :: "nat \<Rightarrow> trace \<Rightarrow> trace" where
  "busyWait ms tr = tr @ [BusyWait ms]"

text \<open>The register writes among a list of events.\<close>

fun isWrite :: "event \<Rightarrow> bool" where
  "isWrite (Write dev reg v ok) = True"
| "isWrite _ = False"

subsection \<open>Register access (relay.c lines 218-352)\<close>

text \<open>
  A function returning \<^verbatim>\<open>OK\<close> returns \<open>Inr\<close>; \<^verbatim>\<open>ERROR\<close> and \<^verbatim>\<open>FAIL\<close> are the two error codes.
  The \<^verbatim>\<open>NULL\<close> checks on the out-parameters are left out: every caller passes the address of a
  local variable.
\<close>

datatype retcode = ERROR | FAIL

definition relayChSet :: "env \<Rightarrow> int \<Rightarrow> u8 \<Rightarrow> int \<Rightarrow> trace \<Rightarrow> (retcode + unit) \<times> trace" where
  "relayChSet e dev channel state tr =
     (if unat channel < CHANNEL_NR_MIN \<or> unat channel > RELAY_CH_NR_MAX then (Inl ERROR, tr)
      else case i2cMem8Read e dev RELAY8_INPORT_REG_ADD tr of
        (None, tr1) \<Rightarrow> (Inl FAIL, tr1)
      | (Some b, tr1) \<Rightarrow>
          if state = OFF then
            (case i2cMem8Write e dev RELAY8_OUTPORT_REG_ADD
                    (b AND NOT (push_bit (relayChRemap ! (unat channel - 1)) 1)) tr1 of
               (ok, tr2) \<Rightarrow> (if ok then Inr () else Inl FAIL, tr2))
          else if state = ON then
            (case i2cMem8Write e dev RELAY8_OUTPORT_REG_ADD
                    (b OR push_bit (relayChRemap ! (unat channel - 1)) 1) tr1 of
               (ok, tr2) \<Rightarrow> (if ok then Inr () else Inl FAIL, tr2))
          else (Inl ERROR, tr1))"

definition relayChGet :: "env \<Rightarrow> int \<Rightarrow> u8 \<Rightarrow> trace \<Rightarrow> (retcode + int) \<times> trace" where
  "relayChGet e dev channel tr =
     (if unat channel < CHANNEL_NR_MIN \<or> unat channel > RELAY_CH_NR_MAX then (Inl ERROR, tr)
      else case i2cMem8Read e dev RELAY8_INPORT_REG_ADD tr of
        (None, tr1) \<Rightarrow> (Inl ERROR, tr1)
      | (Some b, tr1) \<Rightarrow>
          (if b AND push_bit (relayChRemap ! (unat channel - 1)) 1 \<noteq> 0 then Inr ON else Inr OFF, tr1))"

definition relaySet :: "env \<Rightarrow> int \<Rightarrow> int \<Rightarrow> trace \<Rightarrow> (retcode + unit) \<times> trace" where
  "relaySet e dev val tr =
     (case i2cMem8Write e dev RELAY8_OUTPORT_REG_ADD (relayToIO (word_of_int (0xff AND val))) tr of
        (ok, tr1) \<Rightarrow> (if ok then Inr () else Inl FAIL, tr1))"

definition relayGet :: "env \<Rightarrow> int \<Rightarrow> trace \<Rightarrow> (retcode + int) \<times> trace" where
  "relayGet e dev tr =
     (case i2cMem8Read e dev RELAY8_INPORT_REG_ADD tr of
        (None, tr1) \<Rightarrow> (Inl ERROR, tr1)
      | (Some b, tr1) \<Rightarrow> (Inr (uint (IOToRelay b)), tr1))"

text \<open>
  Lines 307-336. The test is \<^verbatim>\<open>buff[0] & (1 << inMaskRemap[channel - 1])\<close>, computed on
  \<^verbatim>\<open>int\<close>: the shift count is the mask entry, not the bit number of \<open>inChRemap\<close>.
\<close>

definition inChGet :: "env \<Rightarrow> int \<Rightarrow> u8 \<Rightarrow> trace \<Rightarrow> (retcode + int) \<times> trace" where
  "inChGet e dev channel tr =
     (if unat channel < CHANNEL_NR_MIN \<or> unat channel > RELAY_CH_NR_MAX then (Inl ERROR, tr)
      else case i2cMem8Read e dev RELAY8_INPORT_REG_ADD tr of
        (None, tr1) \<Rightarrow> (Inl ERROR, tr1)
      | (Some b, tr1) \<Rightarrow>
          (if uint b AND push_bit (unat (inMaskRemap ! (unat channel - 1))) 1 = 0
           then Inr ON else Inr OFF, tr1))"

definition inGet :: "env \<Rightarrow> int \<Rightarrow> trace \<Rightarrow> (retcode + int) \<times> trace" where
  "inGet e dev tr =
     (case i2cMem8Read e dev RELAY8_INPORT_REG_ADD tr of
        (None, tr1) \<Rightarrow> (Inl ERROR, tr1)
      | (Some b, tr1) \<Rightarrow> (Inr (uint (IOToIn b)), tr1))"

subsection \<open>Board session (relay.c lines 355-396)\<close>

definition doBoardInit :: "env \<Rightarrow> int \<Rightarrow> int \<Rightarrow> trace \<Rightarrow> (retcode + int) \<times> trace" where
  "doBoardInit e base stack tr =
     (if stack < 0 \<or> stack > 7 then (Inl ERROR, tr)
      else (let (dev, tr1) = i2cSetup e (boardAddress base stack) tr in
            if dev = - 1 then (Inl ERROR, tr1)
            else (case i2cMem8Read e dev RELAY8_CFG_REG_ADD tr1 of
                    (None, tr2) \<Rightarrow> (Inl ERROR, tr2)
                  | (Some b, tr2) \<Rightarrow>
                      if b \<noteq> 0x0f then
                        (let (ok, tr3) = i2cMem8Write e dev RELAY8_CFG_REG_ADD 0x0f tr2 in
                         if \<not> ok then (Inl ERROR, tr3)
                         else (let (ok', tr4) = i2cMem8Write e dev RELAY8_OUTPORT_REG_ADD 0 tr3 in
                               if \<not> ok' then (Inl ERROR, tr4) else (Inr dev, tr4)))
                      else (Inr dev, tr2))))"

subsection \<open>The write command (relay.c lines 421-527)\<close>

text \<open>
  Each \<^verbatim>\<open>exit(1)\<close> of \<^verbatim>\<open>doRelayWrite\<close> is one error value: \<open>InvalidArgument\<close> is line 449
  or 502, \<open>WriteFailed\<close> line 475 or 513, \<open>ReadFailed\<close> line 480 or 518, \<open>VerifyExhausted\<close>
  line 493 or 524. Argument parsing is left out: the functions start from the parsed
  \<^verbatim>\<open>pin\<close>, \<^verbatim>\<open>state\<close> and \<^verbatim>\<open>val\<close> and the handle \<^verbatim>\<open>dev\<close>.
\<close>

datatype error = InvalidArgument | WriteFailed | ReadFailed | VerifyExhausted

text \<open>
  Lines 470-483, \<^verbatim>\<open>while ((retry > 0) && (stateR != state))\<close>. The loop decrements
  \<^verbatim>\<open>retry\<close> in every round, so it is a structural recursion on \<^verbatim>\<open>retry\<close>; the result is the
  value of \<^verbatim>\<open>retry\<close> when the loop is left.
\<close>

fun writeChLoop :: "env \<Rightarrow> int \<Rightarrow> u8 \<Rightarrow> int \<Rightarrow> nat \<Rightarrow> int \<Rightarrow> trace \<Rightarrow> (error + nat) \<times> trace" where
  "writeChLoop e dev pin state 0 stateR tr = (Inr 0, tr)"
| "writeChLoop e dev pin state (Suc retry) stateR tr =
     (if stateR \<noteq> state then
        (case relayChSet e dev pin state tr of
           (Inl c, tr1) \<Rightarrow> (Inl WriteFailed, tr1)
         | (Inr u, tr1) \<Rightarrow>
             (case relayChGet e dev pin tr1 of
                (Inl c, tr2) \<Rightarrow> (Inl ReadFailed, tr2)
              | (Inr stateR', tr2) \<Rightarrow> writeChLoop e dev pin state retry stateR' tr2))
      else (Inr (Suc retry), tr))"

text \<open>Lines 445-450 and 468-494: \<^verbatim>\<open>4relplus <id> write <channel> <on/off>\<close>.\<close>

definition doRelayWriteChannel :: "env \<Rightarrow> int \<Rightarrow> int \<Rightarrow> int \<Rightarrow> trace \<Rightarrow> (error + unit) \<times> trace" where
  "doRelayWriteChannel e dev pin state tr =
     (if pin < int CHANNEL_NR_MIN \<or> pin > int RELAY_CH_NR_MAX then (Inl InvalidArgument, tr)
      else case writeChLoop e dev (word_of_int pin) state RETRY_TIMES STATE_COUNT tr of
        (Inl err, tr1) \<Rightarrow> (Inl err, tr1)
      | (Inr retry, tr1) \<Rightarrow> (if retry = 0 then Inl VerifyExhausted else Inr (), tr1))"

text \<open>
  Lines 507-520, \<^verbatim>\<open>while ((retry > 0) && (valR != val))\<close>. Nothing in the body changes
  \<^verbatim>\<open>retry\<close>, so the loop has no bound of its own: the first argument is the number of rounds
  allowed, and \<open>None\<close> says that the loop was still running when they were used up.
\<close>

fun writeValLoop :: "nat \<Rightarrow> env \<Rightarrow> int \<Rightarrow> int \<Rightarrow> nat \<Rightarrow> int \<Rightarrow> trace \<Rightarrow> ((error + nat) \<times> trace) option" where
  "writeValLoop 0 e dev val retry valR tr = None"
| "writeValLoop (Suc fuel) e dev val retry valR tr =
     (if retry > 0 \<and> valR \<noteq> val then
        (case relaySet e dev val tr of
           (Inl c, tr1) \<Rightarrow> Some (Inl WriteFailed, tr1)
         | (Inr u, tr1) \<Rightarrow>
             (case relayGet e dev tr1 of
                (Inl c, tr2) \<Rightarrow> Some (Inl ReadFailed, tr2)
              | (Inr valR', tr2) \<Rightarrow> writeValLoop fuel e dev val retry valR' tr2))
      else Some (Inr retry, tr))"

text \<open>Lines 498-525: \<^verbatim>\<open>4relplus <id> write <value>\<close>.\<close>

definition doRelayWriteValue :: "nat \<Rightarrow> env \<Rightarrow> int \<Rightarrow> int \<Rightarrow> trace \<Rightarrow> ((error + unit) \<times> trace) option" where
  "doRelayWriteValue fuel e dev val tr =
     (if val < 0 \<or> val > 255 then Some (Inl InvalidArgument, tr)
      else case writeValLoop fuel e dev val RETRY_TIMES (- 1) tr of
        None \<Rightarrow> None
      | Some (Inl err, tr1) \<Rightarrow> Some (Inl err, tr1)
      | Some (Inr retry, tr1) \<Rightarrow> Some (if retry = 0 then Inl VerifyExhausted else Inr (), tr1))"

subsection \<open>The self-test (relay.c lines 718-849)\<close>

text \<open>
  The test ends with \<^verbatim>\<open>exit(1)\<close> or returns to \<^verbatim>\<open>main\<close> with the key-press result
  \<^verbatim>\<open>relayResult\<close>, which decides the PASS or FAIL line.
\<close>

datatype outcome = Exit1 | Returned int


text \<open>
  Lines 768-780: switch one relay on until the read-back shows it. Neither this loop nor the
  next changes \<^verbatim>\<open>retry\<close> except to 0 on a failed call, so both take a number of rounds
  allowed. A failed \<^verbatim>\<open>relayChSet\<close> leaves the loop at once (\<^verbatim>\<open>break\<close>).
\<close>

fun testOnLoop :: "nat \<Rightarrow> env \<Rightarrow> int \<Rightarrow> u8 \<Rightarrow> int \<Rightarrow> nat \<Rightarrow> int \<Rightarrow> trace \<Rightarrow> (nat \<times> trace) option" where
  "testOnLoop 0 e dev ch relVal retry valR tr = None"
| "testOnLoop (Suc fuel) e dev ch relVal retry valR tr =
     (if retry > 0 \<and> valR AND relVal = 0 then
        (case relayChSet e dev ch ON tr of
           (Inl c, tr1) \<Rightarrow> Some (0, tr1)
         | (Inr u, tr1) \<Rightarrow>
             (case relayGet e dev tr1 of
                (Inl c, tr2) \<Rightarrow> testOnLoop fuel e dev ch relVal 0 valR tr2
              | (Inr valR', tr2) \<Rightarrow> testOnLoop fuel e dev ch relVal retry valR' tr2))
      else Some (retry, tr))"

text \<open>
  Lines 800-810: switch one relay off. Here a failed \<^verbatim>\<open>relayChSet\<close> only sets \<^verbatim>\<open>retry\<close> to 0
  and \<^verbatim>\<open>relayGet\<close> is still called.
\<close>

fun testOffLoop :: "nat \<Rightarrow> env \<Rightarrow> int \<Rightarrow> u8 \<Rightarrow> int \<Rightarrow> nat \<Rightarrow> int \<Rightarrow> trace \<Rightarrow> (nat \<times> trace) option" where
  "testOffLoop 0 e dev ch relVal retry valR tr = None"
| "testOffLoop (Suc fuel) e dev ch relVal retry valR tr =
     (if retry > 0 \<and> valR AND relVal \<noteq> 0 then
        (case relayChSet e dev ch OFF tr of
           (r, tr1) \<Rightarrow>
             (let retry1 = (case r of Inl c \<Rightarrow> 0 | Inr u \<Rightarrow> retry) in
              case relayGet e dev tr1 of
                (Inl c, tr2) \<Rightarrow> testOffLoop fuel e dev ch relVal 0 valR tr2
              | (Inr valR', tr2) \<Rightarrow> testOffLoop fuel e dev ch relVal retry1 valR' tr2))
      else Some (retry, tr))"

text \<open>
  Lines 757-789 and 790-819: the two \<^verbatim>\<open>for\<close> loops over \<^verbatim>\<open>relayOrder\<close>, as recursions on the
  channels still to do. The result is \<^verbatim>\<open>relayResult\<close> when the loop is left.
\<close>

fun sweepOn :: "nat \<Rightarrow> env \<Rightarrow> int \<Rightarrow> u8 list \<Rightarrow> int \<Rightarrow> trace \<Rightarrow> ((outcome + int) \<times> trace) option" where
  "sweepOn fuel e dev [] relayResult tr = Some (Inr relayResult, tr)"
| "sweepOn fuel e dev (ch # rest) relayResult tr =
     (case checkThreadResult e tr of
        (r, tr1) \<Rightarrow>
          if r \<noteq> 0 then Some (Inr r, tr1)
          else (case testOnLoop fuel e dev ch (push_bit (unat ch - 1) 1) RETRY_TIMES 0 tr1 of
                  None \<Rightarrow> None
                | Some (retry, tr2) \<Rightarrow>
                    if retry = 0 then Some (Inl Exit1, tr2)
                    else sweepOn fuel e dev rest r (busyWait 150 tr2)))"

fun sweepOff :: "nat \<Rightarrow> env \<Rightarrow> int \<Rightarrow> u8 list \<Rightarrow> int \<Rightarrow> trace \<Rightarrow> ((outcome + int) \<times> trace) option" where
  "sweepOff fuel e dev [] relayResult tr = Some (Inr relayResult, tr)"
| "sweepOff fuel e dev (ch # rest) relayResult tr =
     (case checkThreadResult e tr of
        (r, tr1) \<Rightarrow>
          if r \<noteq> 0 then Some (Inr r, tr1)
          else (case testOffLoop fuel e dev ch (push_bit (unat ch - 1) 1) RETRY_TIMES 0xff tr1 of
                  None \<Rightarrow> None
                | Some (retry, tr2) \<Rightarrow>
                    if retry = 0 then Some (Inl Exit1, tr2)
                    else sweepOff fuel e dev rest r (busyWait 150 tr2)))"



subsection \<open>Three collaborators to run the code on\<close>

fun isRead :: "event \<Rightarrow> bool" where
  "isRead (Read dev reg r) = True"
| "isRead _ = False"

fun isCheck :: "event \<Rightarrow> bool" where
  "isCheck (CheckThread r) = True"
| "isCheck _ = False"

text \<open>The byte most recently written with success to the output register of \<open>dev\<close>, 0 before.\<close>

definition outputReg :: "int \<Rightarrow> trace \<Rightarrow> u8" where
  "outputReg dev tr =
     fold (\<lambda>ev v. case ev of
                     Write d reg x ok \<Rightarrow> if ok \<and> d = dev \<and> reg = RELAY8_OUTPORT_REG_ADD then x else v
                   | _ \<Rightarrow> v) tr 0"

text \<open>
  Modelled from the spec: a board that works. It is initialised (the direction register reads
  as the sentinel), every call succeeds, a write to the output register is visible at once in
  the upper nibble of the port register, and the lower nibble shows the input pins, which are
  not writable. A key is pressed once \<open>polls\<close> checks have been made.
\<close>

definition board :: "u8 \<Rightarrow> nat \<Rightarrow> env" where
  "board pins polls =
     \<lparr> setup_resp = (\<lambda>tr add. 3),
       read_resp = (\<lambda>tr dev reg.
          if reg = RELAY8_CFG_REG_ADD then Some 0x0f
          else Some ((outputReg dev tr AND 0xF0) OR (pins AND 0x0F))),
       write_resp = (\<lambda>tr dev reg v. True),
       thread_resp = (\<lambda>tr. if polls \<le> length (filter isCheck tr) then 1 else 0) \<rparr>"

text \<open>A line stuck at the byte \<open>b\<close>: every call succeeds and every read returns \<open>b\<close>.\<close>

definition stuck :: "u8 \<Rightarrow> env" where
  "stuck b =
     \<lparr> setup_resp = (\<lambda>tr add. 3),
       read_resp = (\<lambda>tr dev reg. Some b),
       write_resp = (\<lambda>tr dev reg v. True),
       thread_resp = (\<lambda>tr. 0) \<rparr>"

text \<open>
  A scripted mock: the n-th read is answered by the n-th entry of \<open>rs\<close>, the n-th write by the
  n-th entry of \<open>ws\<close>; a call beyond the script fails. No key is ever pressed.
\<close>

definition mock :: "u8 option list \<Rightarrow> bool list \<Rightarrow> env" where
  "mock rs ws =
     \<lparr> setup_resp = (\<lambda>tr add. 3),
       read_resp = (\<lambda>tr dev reg.
          let n = length (filter isRead tr) in if n < length rs then rs ! n else None),
       write_resp = (\<lambda>tr dev reg v.
          let n = length (filter isWrite tr) in if n < length ws then ws ! n else False),
       thread_resp = (\<lambda>tr. 0) \<rparr>"

text \<open>
  Modelled from the spec: ``all writes are visible immediately to subsequent reads on the same
  handle'' and ``only the output nibble is writable''. On such a bus the port register always
  reads, in its upper nibble, what was last written to the output register.
\<close>

definition writeVisible :: "env \<Rightarrow> int \<Rightarrow> bool" where
  "writeVisible e dev \<longleftrightarrow>
     (\<forall>tr. \<exists>b. read_resp e tr dev RELAY8_INPORT_REG_ADD = Some b
             \<and> b AND 0xF0 = outputReg dev tr AND 0xF0)"





section \<open>Properties\<close>

subsection \<open>Bit remapping\<close>

lemma u8_le_15_cases: "(m::u8) \<le> 15 \<Longrightarrow> m \<in> set (map of_nat [0..<16])"
proof -
  assume "m \<le> 15"
  then have "unat m < 16" by (simp add: word_le_nat_alt)
  then have "unat m \<in> set [0..<16]" by simp
  then have "of_nat (unat m) \<in> (of_nat ` set [0..<16] :: u8 set)" by (rule imageI)
  then show ?thesis by (simp only: set_map of_nat_unat ucast_id)
qed

lemma roundtrip_all: "\<forall>m \<in> set (map of_nat [0..<16]). IOToRelay (relayToIO m) = (m::u8)"
  by (simp add: upt_conv_Cons IOToRelay_def relayToIO_def RELAY_CH_NR_MAX_def relayMaskRemap_def)

text \<open>
  Claim C6. For every 4-bit logical mask \<open>m\<close> (a byte of value at most 15), converting to the
  physical relay mask with \<open>relayToIO\<close> and back with \<open>IOToRelay\<close> gives \<open>m\<close> again.
\<close>

theorem relay_mask_roundtrip: "m \<le> 15 \<Longrightarrow> IOToRelay (relayToIO m) = m"
  using roundtrip_all u8_le_15_cases by blast

theorem relay_mask_roundtrip_witness: "(10::u8) \<le> 15 \<and> IOToRelay (relayToIO 10) = 10"
  using relay_mask_roundtrip [of 10] by simp

lemma channel_cases: "1 \<le> (c::nat) \<Longrightarrow> c \<le> 4 \<Longrightarrow> c = 1 \<or> c = 2 \<or> c = 3 \<or> c = 4"
  by arith

lemma IOToIn_bit:
  "1 \<le> c \<Longrightarrow> c \<le> 4 \<Longrightarrow> bit (IOToIn b) (c - 1) = (b AND inMaskRemap ! (c - 1) = 0)"
  apply (drule (1) channel_cases)
  apply (elim disjE)
     apply (simp_all add: IOToIn_def IN_CH_NR_MAX_def inMaskRemap_def upt_conv_Cons)
  done

lemma IOToIn_F7: "IOToIn 0xF7 = 1"
  by (simp add: IOToIn_def IN_CH_NR_MAX_def inMaskRemap_def upt_conv_Cons)

text \<open>
  Claim C8. The input mask is active-low: for every register byte \<open>b\<close> and every input channel
  \<open>c\<close> from 1 to 4, bit \<open>c - 1\<close> of \<open>IOToIn b\<close> is set exactly when \<open>b\<close> has the bit of
  \<open>inMaskRemap\<close> for that channel clear; and the byte \<open>0b11110111\<close> gives the mask \<open>0b0001\<close>.
\<close>

theorem input_mask_active_low:
  "(1 \<le> c \<and> c \<le> 4 \<longrightarrow> bit (IOToIn b) (c - 1) = (b AND inMaskRemap ! (c - 1) = 0))
   \<and> IOToIn 0xF7 = 0x01"
  using IOToIn_bit [of c b] IOToIn_F7 by simp

theorem input_mask_active_low_witness:
  "bit (IOToIn 0xF7) (1 - 1) = (0xF7 AND inMaskRemap ! (1 - 1) = (0::u8)) \<and> IOToIn 0xF7 = 0x01"
  using input_mask_active_low [of 1 "0xF7"] by (simp add: inMaskRemap_def)

text \<open>
  \<open>inGet\<close>, behind \<^verbatim>\<open>inread <id>\<close>, reports that mask. The single-channel \<open>inChGet\<close> is
  another path, with its own test: for channel 1 the tested bit lies outside the byte.
\<close>

lemma inGet_mask:
  "read_resp e tr dev RELAY8_INPORT_REG_ADD = Some b \<Longrightarrow>
   fst (inGet e dev tr) = Inr (uint (IOToIn b))"
  by (simp add: inGet_def i2cMem8Read_def Let_def)

lemma inChGet_channel_1:
  "read_resp e tr dev RELAY8_INPORT_REG_ADD = Some b \<Longrightarrow> fst (inChGet e dev 1 tr) = Inr ON"
proof -
  have "\<not> bit (uint b) 8" by (simp add: bit_uint_iff)
  then have "uint b AND 256 = 0" using and_exp_eq_0_iff_not_bit [of "uint b" 8] by simp
  then show "read_resp e tr dev RELAY8_INPORT_REG_ADD = Some b \<Longrightarrow> ?thesis"
    by (simp add: inChGet_def i2cMem8Read_def Let_def CHANNEL_NR_MIN_def RELAY_CH_NR_MAX_def
        inMaskRemap_def)
qed

subsection \<open>Stack addressing\<close>

lemma stack_cases:
  "0 \<le> (p::int) \<Longrightarrow> p \<le> 7 \<Longrightarrow> p = 0 \<or> p = 1 \<or> p = 2 \<or> p = 3 \<or> p = 4 \<or> p = 5 \<or> p = 6 \<or> p = 7"
  by arith

lemma stackSt_values:
  "stackSt 0 = 0" "stackSt 1 = 4" "stackSt 2 = 2" "stackSt 3 = 6"
  "stackSt 4 = 1" "stackSt 5 = 5" "stackSt 6 = 3" "stackSt 7 = 7"
  by (simp_all add: stackSt_def)

lemma stackSt_inj:
  assumes "0 \<le> p" "p \<le> 7" "0 \<le> q" "q \<le> 7" "stackSt p = stackSt q"
  shows "p = q"
  using stack_cases [OF assms(1,2)] stack_cases [OF assms(3,4)] assms(5)
  by (elim disjE) (simp_all add: stackSt_values)

lemma stackSt_or:
  assumes "0 \<le> p" "p \<le> 7"
  shows "uint (stackSt p) = (p AND 2) OR (drop_bit 2 p AND 1) OR (push_bit 2 p AND 4)"
  using stack_cases [OF assms]
  by (elim disjE) (simp_all add: stackSt_values)

lemma xor7_inj: "(a::int) XOR 7 = b XOR 7 \<Longrightarrow> a = b"
  by (metis xor.right_neutral xor.assoc xor_self_eq)

text \<open>
  Claim C5. For two distinct stack positions \<open>p\<close> and \<open>q\<close> in 0..7 the bus addresses differ,
  both the one \<open>doBoardInit\<close> opens and the one \<open>doList\<close> probes, whatever the base address;
  and the address the code computes with \<open>+\<close> is the one of the formula with \<open>OR\<close>,
  \<open>(base + ((p AND 2) OR ((p >> 2) AND 1) OR ((p << 2) AND 4))) XOR 7\<close>.
\<close>

theorem stack_address_injective:
  assumes "0 \<le> p" "p \<le> 7" "0 \<le> q" "q \<le> 7" "p \<noteq> q"
  shows "boardAddress base p \<noteq> boardAddress base q
         \<and> probeAddress base p \<noteq> probeAddress base q
         \<and> boardAddress base p
             = (base + ((p AND 2) OR (drop_bit 2 p AND 1) OR (push_bit 2 p AND 4))) XOR 7"
proof -
  have ne: "uint (stackSt p) \<noteq> uint (stackSt q)"
    using stackSt_inj [OF assms(1-4)] assms(5) by (auto simp: word_uint_eq_iff)
  have a: "boardAddress base p \<noteq> boardAddress base q"
    unfolding boardAddress_def
    using ne xor7_inj [of "uint (stackSt p) + base" "uint (stackSt q) + base"] by auto
  have b: "probeAddress base p \<noteq> probeAddress base q"
    unfolding probeAddress_def
    using ne xor7_inj [of "base + uint (stackSt p)" "base + uint (stackSt q)"] by auto
  have c: "boardAddress base p
             = (base + ((p AND 2) OR (drop_bit 2 p AND 1) OR (push_bit 2 p AND 4))) XOR 7"
    unfolding boardAddress_def stackSt_or [OF assms(1,2)] by (simp add: add.commute)
  from a b c show ?thesis by simp
qed

theorem stack_address_injective_witness:
  "boardAddress 0x38 1 \<noteq> boardAddress 0x38 4 \<and> probeAddress 0x38 1 \<noteq> probeAddress 0x38 4
   \<and> boardAddress 0x38 1 = 59"
  using stack_address_injective [of 1 4 "0x38"] by simp

subsection \<open>Board session\<close>

text \<open>
  Claim C9. When \<open>doBoardInit\<close> opens a valid stack position, gets a handle and reads the
  sentinel byte \<open>0x0f\<close> from the direction-configuration register, it returns the handle after
  exactly two bus calls, the setup and that read: it issues no register write.
\<close>

theorem board_init_sentinel_no_write:
  assumes "0 \<le> stack" "stack \<le> 7"
    and "setup_resp e tr (boardAddress base stack) = dev" "dev \<noteq> - 1"
    and "read_resp e (tr @ [Setup (boardAddress base stack) dev]) dev RELAY8_CFG_REG_ADD = Some 0x0f"
  shows "doBoardInit e base stack tr
           = (Inr dev, tr @ [Setup (boardAddress base stack) dev,
                             Read dev RELAY8_CFG_REG_ADD (Some 0x0f)])
         \<and> filter isWrite (drop (length tr) (snd (doBoardInit e base stack tr))) = []"
  using assms by (simp add: doBoardInit_def i2cSetup_def i2cMem8Read_def Let_def)

theorem board_init_sentinel_no_write_witness:
  "doBoardInit (board 0 0) 0x38 2 [] = (Inr 3, [Setup 61 3, Read 3 RELAY8_CFG_REG_ADD (Some 0x0f)])
   \<and> filter isWrite (drop (length ([]::trace)) (snd (doBoardInit (board 0 0) 0x38 2 []))) = []"
  using board_init_sentinel_no_write [of 2 "board 0 0" "[]" "0x38" 3]
  by (simp add: board_def boardAddress_def stackSt_def)

subsection \<open>Single-channel access\<close>

text \<open>
  Claim C10. For a channel from 1 to 4 and a state that is neither ON nor OFF, \<open>relayChSet\<close>
  returns an error code (\<open>ERROR\<close>, or \<open>FAIL\<close> when the read itself fails) and the only bus
  call it makes is the read of the port register: no register is written.
\<close>

theorem relayChSet_invalid_state:
  assumes "1 \<le> unat channel" "unat channel \<le> 4" "state \<noteq> ON" "state \<noteq> OFF"
  shows "relayChSet e dev channel state tr
           = (Inl (if read_resp e tr dev RELAY8_INPORT_REG_ADD = None then FAIL else ERROR),
              tr @ [Read dev RELAY8_INPORT_REG_ADD (read_resp e tr dev RELAY8_INPORT_REG_ADD)])"
  using assms
  by (auto simp: relayChSet_def i2cMem8Read_def Let_def CHANNEL_NR_MIN_def RELAY_CH_NR_MAX_def
      split: option.splits)

theorem relayChSet_invalid_state_witness:
  "relayChSet (board 0 0) 3 2 STATE_COUNT [] = (Inl ERROR, [Read 3 RELAY8_INPORT_REG_ADD (Some 0)])"
  using relayChSet_invalid_state [of 2 STATE_COUNT "board 0 0" 3 "[]"]
  by (simp add: board_def STATE_COUNT_def ON_def OFF_def outputReg_def
      RELAY8_INPORT_REG_ADD_def RELAY8_CFG_REG_ADD_def)

subsection \<open>The single-channel write-verify loop\<close>

lemma writeChLoop_exhausts:
  assumes rd: "\<forall>tr. read_resp e tr dev RELAY8_INPORT_REG_ADD \<noteq> None"
    and wr: "\<forall>tr v. write_resp e tr dev RELAY8_OUTPORT_REG_ADD v"
    and nm: "\<forall>tr. fst (relayChGet e dev c tr) \<noteq> Inr state"
    and ch: "1 \<le> unat c" "unat c \<le> 4"
    and st: "state = ON \<or> state = OFF"
  shows "stateR \<noteq> state \<Longrightarrow>
         \<exists>evs. writeChLoop e dev c state n stateR tr = (Inr 0, tr @ evs)
               \<and> length (filter isWrite evs) = n \<and> length evs = 3 * n"
proof (induction n arbitrary: stateR tr)
  case 0
  then show ?case by simp
next
  case (Suc n)
  obtain b where b: "read_resp e tr dev RELAY8_INPORT_REG_ADD = Some b"
    using rd by (meson option.exhaust)
  obtain v where set: "relayChSet e dev c state tr
       = (Inr (), tr @ [Read dev RELAY8_INPORT_REG_ADD (Some b),
                        Write dev RELAY8_OUTPORT_REG_ADD v True])"
    using ch st b wr
    by (auto simp: relayChSet_def i2cMem8Read_def i2cMem8Write_def Let_def
        CHANNEL_NR_MIN_def RELAY_CH_NR_MAX_def ON_def OFF_def)
  let ?tr1 = "tr @ [Read dev RELAY8_INPORT_REG_ADD (Some b),
                    Write dev RELAY8_OUTPORT_REG_ADD v True]"
  obtain b1 where b1: "read_resp e ?tr1 dev RELAY8_INPORT_REG_ADD = Some b1"
    using rd by (meson option.exhaust)
  define s1 where
    "s1 = (if b1 AND push_bit (relayChRemap ! (unat c - 1)) 1 \<noteq> 0 then ON else OFF)"
  have get: "relayChGet e dev c ?tr1
       = (Inr s1, ?tr1 @ [Read dev RELAY8_INPORT_REG_ADD (Some b1)])"
    using ch b1
    by (simp add: relayChGet_def i2cMem8Read_def Let_def CHANNEL_NR_MIN_def
        RELAY_CH_NR_MAX_def s1_def)
  have s1: "s1 \<noteq> state" using nm [rule_format, of ?tr1] get by auto
  from Suc.IH [OF s1, of "?tr1 @ [Read dev RELAY8_INPORT_REG_ADD (Some b1)]"]
  obtain evs where evs:
      "writeChLoop e dev c state n s1 (?tr1 @ [Read dev RELAY8_INPORT_REG_ADD (Some b1)])
         = (Inr 0, (?tr1 @ [Read dev RELAY8_INPORT_REG_ADD (Some b1)]) @ evs)"
      "length (filter isWrite evs) = n" "length evs = 3 * n"
    by blast
  let ?evs = "[Read dev RELAY8_INPORT_REG_ADD (Some b), Write dev RELAY8_OUTPORT_REG_ADD v True,
               Read dev RELAY8_INPORT_REG_ADD (Some b1)] @ evs"
  have "writeChLoop e dev c state (Suc n) stateR tr = (Inr 0, tr @ ?evs)"
    using Suc.prems set get evs(1) by simp
  moreover have "length (filter isWrite ?evs) = Suc n" using evs(2) by simp
  moreover have "length ?evs = 3 * Suc n" using evs(3) by simp
  ultimately show ?case by blast
qed

text \<open>
  Claim C4. In \<open>write <id> <channel> <on/off>\<close>, if every read and every write of the bus
  succeeds and no read-back of the channel ever shows the intended state, the command ends at
  the exhaustion exit (line 490-494), not at the write-failure exit (line 472-476), after
  exactly \<open>RETRY_TIMES\<close> rounds: \<open>RETRY_TIMES\<close> register writes and three bus calls (read,
  write, read-back) per round.
\<close>

theorem write_channel_never_matching:
  assumes "1 \<le> pin" "pin \<le> 4" "state = ON \<or> state = OFF"
    and "\<forall>tr. read_resp e tr dev RELAY8_INPORT_REG_ADD \<noteq> None"
    and "\<forall>tr v. write_resp e tr dev RELAY8_OUTPORT_REG_ADD v"
    and "\<forall>tr. fst (relayChGet e dev (word_of_int pin) tr) \<noteq> Inr state"
  shows "\<exists>evs. doRelayWriteChannel e dev pin state tr = (Inl VerifyExhausted, tr @ evs)
               \<and> length (filter isWrite evs) = RETRY_TIMES
               \<and> length evs = 3 * RETRY_TIMES"
proof -
  have u: "unat (word_of_int pin :: u8) = nat pin"
    using assms(1,2) by (simp add: unat_eq_nat_uint uint_word_of_int)
  have ch: "1 \<le> unat (word_of_int pin :: u8)" "unat (word_of_int pin :: u8) \<le> 4"
    using assms(1,2) u by auto
  have ne: "STATE_COUNT \<noteq> state"
    using assms(3) by (auto simp: STATE_COUNT_def ON_def OFF_def)
  from writeChLoop_exhausts [OF assms(4,5,6) ch assms(3) ne, of RETRY_TIMES tr]
  obtain evs where
    "writeChLoop e dev (word_of_int pin) state RETRY_TIMES STATE_COUNT tr = (Inr 0, tr @ evs)"
    "length (filter isWrite evs) = RETRY_TIMES" "length evs = 3 * RETRY_TIMES" by blast
  then show ?thesis
    using assms(1,2) by (auto simp: doRelayWriteChannel_def CHANNEL_NR_MIN_def RELAY_CH_NR_MAX_def)
qed

lemma stuck_get: "fst (relayChGet (stuck 0) 3 1 tr) = Inr OFF"
  by (simp add: relayChGet_def stuck_def i2cMem8Read_def Let_def CHANNEL_NR_MIN_def
      RELAY_CH_NR_MAX_def)

theorem write_channel_never_matching_witness:
  "fst (doRelayWriteChannel (stuck 0) 3 1 ON []) = Inl VerifyExhausted
   \<and> length (filter isWrite (snd (doRelayWriteChannel (stuck 0) 3 1 ON []))) = RETRY_TIMES
   \<and> length (snd (doRelayWriteChannel (stuck 0) 3 1 ON [])) = 3 * RETRY_TIMES"
proof -
  have "\<exists>evs. doRelayWriteChannel (stuck 0) 3 1 ON [] = (Inl VerifyExhausted, [] @ evs)
               \<and> length (filter isWrite evs) = RETRY_TIMES
               \<and> length evs = 3 * RETRY_TIMES"
    using write_channel_never_matching [of 1 ON "stuck 0" 3 "[]"]
    by (simp add: stuck_get ON_def OFF_def) (simp add: stuck_def)
  then show ?thesis by auto
qed

text \<open>
  Claim C3, at the input where the code departs from it. The bus answers every call; the
  first nine read-backs show relay 1 off and the tenth shows it on, the intended state. The
  loop is left with \<open>retry = 0\<close>, and the test of line 490 then reports a failure although the
  last event of the run is the matching read-back.
\<close>

theorem write_channel_match_on_last_attempt:
  "fst (doRelayWriteChannel (mock (replicate 19 (Some 0) @ [Some 0x80]) (replicate 10 True)) 3 1 ON [])
     = Inl VerifyExhausted
   \<and> last (snd (doRelayWriteChannel (mock (replicate 19 (Some 0) @ [Some 0x80]) (replicate 10 True)) 3 1 ON []))
     = Read 3 RELAY8_INPORT_REG_ADD (Some 0x80)
   \<and> length (filter isWrite
        (snd (doRelayWriteChannel (mock (replicate 19 (Some 0) @ [Some 0x80]) (replicate 10 True)) 3 1 ON [])))
     = RETRY_TIMES"
  by code_simp

text \<open>The same bus with the match one round earlier, on the ninth read-back: the command succeeds.\<close>

lemma write_channel_match_on_ninth_attempt:
  "fst (doRelayWriteChannel (mock (replicate 17 (Some 0) @ [Some 0x80]) (replicate 10 True)) 3 1 ON [])
     = Inr ()"
  by code_simp

subsection \<open>The whole-register write-verify loop\<close>

text \<open>The loop hands back the value of \<open>retry\<close> it was given, so the test of line 521 never fires.\<close>

lemma writeValLoop_keeps_retry:
  "writeValLoop fuel e dev val retry valR tr = Some (Inr r, tr') \<Longrightarrow> r = retry"
proof (induction fuel arbitrary: valR tr)
  case 0
  then show ?case by simp
next
  case (Suc fuel)
  then show ?case
    by (auto split: if_splits prod.splits sum.splits)
qed

lemma writeValLoop_errors:
  "writeValLoop fuel e dev val retry valR tr = Some (Inl x, tr') \<Longrightarrow>
   x = WriteFailed \<or> x = ReadFailed"
proof (induction fuel arbitrary: valR tr)
  case 0
  then show ?case by simp
next
  case (Suc fuel)
  then show ?case
    by (auto split: if_splits prod.splits sum.splits)
qed

lemma write_value_never_exhausts:
  "doRelayWriteValue fuel e dev val tr \<noteq> Some (Inl VerifyExhausted, tr')"
proof
  assume a: "doRelayWriteValue fuel e dev val tr = Some (Inl VerifyExhausted, tr')"
  then have "0 \<le> val" by (auto simp: doRelayWriteValue_def split: if_splits)
  obtain res where l: "writeValLoop fuel e dev val RETRY_TIMES (- 1) tr = Some (res, tr')"
    using a by (auto simp: doRelayWriteValue_def split: if_splits option.splits sum.splits)
  show False
  proof (cases res)
    case (Inl x)
    then show False
      using a l writeValLoop_errors [of fuel e dev val RETRY_TIMES "- 1" tr x tr']
      by (auto simp: doRelayWriteValue_def split: if_splits)
  next
    case (Inr r)
    then show False
      using a l writeValLoop_keeps_retry [of fuel e dev val RETRY_TIMES "- 1" tr r tr']
      by (auto simp: doRelayWriteValue_def RETRY_TIMES_def split: if_splits)
  qed
qed

lemma IOToRelay_le: "IOToRelay b \<le> 15"
  by (simp add: IOToRelay_def RELAY_CH_NR_MAX_def relayMaskRemap_def upt_conv_Cons)

lemma relayGet_small: "relayGet e dev tr = (Inr v, tr') \<Longrightarrow> v \<le> 15"
  using IOToRelay_le
  by (auto simp: relayGet_def i2cMem8Read_def Let_def word_le_def split: option.splits)

lemma writeValLoop_board:
  "valR \<noteq> val \<Longrightarrow> 15 < val \<Longrightarrow> 0 < retry \<Longrightarrow>
   writeValLoop fuel (board pins polls) dev val retry valR tr = None"
proof (induction fuel arbitrary: valR tr)
  case 0
  then show ?case by simp
next
  case (Suc fuel)
  obtain tr1 where s: "relaySet (board pins polls) dev val tr = (Inr (), tr1)"
    by (simp add: relaySet_def i2cMem8Write_def board_def Let_def)
  obtain v tr2 where g: "relayGet (board pins polls) dev tr1 = (Inr v, tr2)"
    by (simp add: relayGet_def i2cMem8Read_def board_def Let_def
        RELAY8_INPORT_REG_ADD_def RELAY8_CFG_REG_ADD_def)
  have "v \<noteq> val" using relayGet_small [OF g] Suc.prems(2) by simp
  then show ?case using Suc s g by simp
qed

text \<open>
  Claim C1, at the input where the code departs from it: \<open>write <id> 255\<close> on a board that
  works. The read-back is a 4-bit mask and never equals 255, and the loop of lines 507-520 does
  not decrement \<open>retry\<close>: however many rounds are allowed, the command is still running when
  they are used up. It neither succeeds nor reaches the exhaustion exit.
\<close>

theorem write_value_never_returns:
  "doRelayWriteValue fuel (board pins polls) dev 255 tr = None"
  by (simp add: doRelayWriteValue_def writeValLoop_board RETRY_TIMES_def)

subsection \<open>Read-modify-write of one relay\<close>

lemma mask_bit_u8:
  "((b::u8) AND 0x80 = 0) = (\<not> bit b 7)" "((b::u8) AND 0x40 = 0) = (\<not> bit b 6)"
  "((b::u8) AND 0x20 = 0) = (\<not> bit b 5)" "((b::u8) AND 0x10 = 0) = (\<not> bit b 4)"
  using and_exp_eq_0_iff_not_bit [of b 7] and_exp_eq_0_iff_not_bit [of b 6]
    and_exp_eq_0_iff_not_bit [of b 5] and_exp_eq_0_iff_not_bit [of b 4]
  by simp_all

lemma IOToRelay_bits:
  "IOToRelay b = (if bit b 7 then 1 else 0) + (if bit b 6 then 2 else 0)
               + (if bit b 5 then 4 else 0) + (if bit b 4 then 8 else 0)"
  by (simp add: IOToRelay_def RELAY_CH_NR_MAX_def relayMaskRemap_def upt_conv_Cons mask_bit_u8)

lemma IOToRelay_high_nibble: 
  assumes "x AND 0xF0 = y AND (0xF0::u8)"
  shows "IOToRelay x = IOToRelay y"
proof -
  have "bit (x AND 0xF0) n = bit (y AND 0xF0) n" for n using assms by simp
  from this [of 7] this [of 6] this [of 5] this [of 4]
  have "bit x 7 = bit y 7" "bit x 6 = bit y 6" "bit x 5 = bit y 5" "bit x 4 = bit y 4"
    by (simp_all add: bit_and_iff)
  then show ?thesis by (simp add: IOToRelay_bits)
qed

lemma IOToRelay_set_bit:
  assumes "1 \<le> c" "c \<le> 4"
  shows "IOToRelay (b OR push_bit (relayChRemap ! (c - 1)) 1) = IOToRelay b OR push_bit (c - 1) 1"
  using channel_cases [OF assms]
  apply (elim disjE)
  apply (simp_all add: IOToRelay_bits relayChRemap_def bit_or_iff)
  done


lemma relayChRemap_high:
  assumes "1 \<le> c" "c \<le> 4"
  shows "(push_bit (relayChRemap ! (c - 1)) 1 :: u8) AND 0xF0 = push_bit (relayChRemap ! (c - 1)) 1"
  using channel_cases [OF assms] by (elim disjE) (simp_all add: relayChRemap_def)

lemma relayChRemap_nonzero:
  assumes "1 \<le> c" "c \<le> 4"
  shows "(push_bit (relayChRemap ! (c - 1)) 1 :: u8) \<noteq> 0"
  using channel_cases [OF assms] by (elim disjE) (simp_all add: relayChRemap_def)

lemma and_high_nibble:
  assumes "(m::u8) AND 0xF0 = m" "x AND 0xF0 = y AND (0xF0::u8)"
  shows "x AND m = y AND m"
proof -
  have "x AND m = x AND (m AND 0xF0)" by (simp only: assms(1))
  also have "\<dots> = (x AND 0xF0) AND m" by (simp only: and.assoc and.commute and.left_commute)
  also have "\<dots> = (y AND 0xF0) AND m" by (simp only: assms(2))
  also have "\<dots> = y AND (m AND 0xF0)" by (simp only: and.assoc and.commute and.left_commute)
  also have "\<dots> = y AND m" by (simp only: assms(1))
  finally show ?thesis .
qed

lemma or_and_absorb: "((b::u8) OR m) AND m = m"
  by (rule bit_eqI) (auto simp: bit_and_iff bit_or_iff)

text \<open>
  Claim C7. On a bus where writes to the output register are visible at once in the upper
  nibble of the port register (\<open>writeVisible\<close>), for a channel \<open>c\<close> from 1 to 4 and any
  current register byte \<open>b\<close>: if the read and the write of \<open>relayChSet\<close> succeed, then
  \<open>relayChSet c ON\<close> followed by \<open>relayChGet c\<close> yields ON, and \<open>relayGet\<close>, which reported
  \<open>IOToRelay b\<close> before, now reports the same mask with bit \<open>c - 1\<close> set: the other relay
  channels are unchanged.
\<close>

theorem set_channel_on_isolated:
  assumes ch: "1 \<le> unat c" "unat c \<le> 4"
    and vis: "writeVisible e dev"
    and rd: "read_resp e tr dev RELAY8_INPORT_REG_ADD = Some b"
    and wr: "write_resp e (tr @ [Read dev RELAY8_INPORT_REG_ADD (Some b)]) dev RELAY8_OUTPORT_REG_ADD
               (b OR push_bit (relayChRemap ! (unat c - 1)) 1)"
  shows "\<exists>tr0 tr1 tr2 tr3.
           relayGet e dev tr = (Inr (uint (IOToRelay b)), tr0)
         \<and> relayChSet e dev c ON tr = (Inr (), tr1)
         \<and> relayChGet e dev c tr1 = (Inr ON, tr2)
         \<and> relayGet e dev tr2 = (Inr (uint (IOToRelay b OR push_bit (unat c - 1) 1)), tr3)"
proof -
  let ?m = "push_bit (relayChRemap ! (unat c - 1)) 1 :: u8"
  let ?v = "b OR ?m"
  let ?tr1 = "tr @ [Read dev RELAY8_INPORT_REG_ADD (Some b), Write dev RELAY8_OUTPORT_REG_ADD ?v True]"
  have g0: "relayGet e dev tr = (Inr (uint (IOToRelay b)), tr @ [Read dev RELAY8_INPORT_REG_ADD (Some b)])"
    using rd by (simp add: relayGet_def i2cMem8Read_def Let_def)
  have s: "relayChSet e dev c ON tr = (Inr (), ?tr1)"
    using ch rd wr
    by (simp add: relayChSet_def i2cMem8Read_def i2cMem8Write_def Let_def
        CHANNEL_NR_MIN_def RELAY_CH_NR_MAX_def ON_def OFF_def)
  have o1: "outputReg dev ?tr1 = ?v"
    by (simp add: outputReg_def)
  from vis [unfolded writeVisible_def, rule_format, of ?tr1]
  obtain b1 where b1: "read_resp e ?tr1 dev RELAY8_INPORT_REG_ADD = Some b1" "b1 AND 0xF0 = ?v AND 0xF0"
    unfolding o1 by blast
  have "b1 AND ?m = ?v AND ?m"
    using and_high_nibble [OF relayChRemap_high [OF ch] b1(2)] .
  also have "\<dots> = ?m" by (rule or_and_absorb)
  finally have on: "b1 AND ?m \<noteq> 0" using relayChRemap_nonzero [OF ch] by simp
  let ?tr2 = "?tr1 @ [Read dev RELAY8_INPORT_REG_ADD (Some b1)]"
  have g: "relayChGet e dev c ?tr1 = (Inr ON, ?tr2)"
    using ch b1(1) on
    by (simp add: relayChGet_def i2cMem8Read_def Let_def CHANNEL_NR_MIN_def RELAY_CH_NR_MAX_def)
  have o2: "outputReg dev ?tr2 = ?v" by (simp add: outputReg_def)
  from vis [unfolded writeVisible_def, rule_format, of ?tr2]
  obtain b2 where b2: "read_resp e ?tr2 dev RELAY8_INPORT_REG_ADD = Some b2" "b2 AND 0xF0 = ?v AND 0xF0"
    unfolding o2 by blast
  have "IOToRelay b2 = IOToRelay ?v" using IOToRelay_high_nibble [OF b2(2)] .
  also have "\<dots> = IOToRelay b OR push_bit (unat c - 1) 1" using IOToRelay_set_bit [OF ch] .
  finally have g2: "relayGet e dev ?tr2
      = (Inr (uint (IOToRelay b OR push_bit (unat c - 1) 1)), ?tr2 @ [Read dev RELAY8_INPORT_REG_ADD (Some b2)])"
    using b2(1) by (simp add: relayGet_def i2cMem8Read_def Let_def)
  show ?thesis by (intro exI conjI) (rule g0, rule s, rule g, rule g2)
qed

lemma board_writeVisible: "writeVisible (board pins polls) dev"
  by (simp add: writeVisible_def board_def RELAY8_INPORT_REG_ADD_def RELAY8_CFG_REG_ADD_def
      word_bw_assocs word_ao_dist)

text \<open>
  The example of the claim on the working board: from all relays off, switching relay 2 on makes
  \<open>relayGet\<close> report \<open>0b0010\<close>, then switching relay 4 on makes it report \<open>0b1010\<close>.
\<close>

lemma set_channel_example: "(let e = board 0 0;
             (r1, t1) = relayChSet e 3 2 ON [];
             (r2, t2) = relayGet e 3 t1;
             (r3, t3) = relayChSet e 3 4 ON t2;
             (r4, t4) = relayGet e 3 t3
         in (r1, r2, r3, r4)) = (Inr (), Inr 2, Inr (), Inr 10)"
  by code_simp

theorem set_channel_on_isolated_witness:
  "fst (relayGet (board 0 0) 3 []) = Inr 0
   \<and> fst (relayChSet (board 0 0) 3 2 ON []) = Inr ()
   \<and> fst (relayChGet (board 0 0) 3 2 (snd (relayChSet (board 0 0) 3 2 ON []))) = Inr ON
   \<and> fst (relayGet (board 0 0) 3 (snd (relayChGet (board 0 0) 3 2 (snd (relayChSet (board 0 0) 3 2 ON []))))) = Inr 2"
proof -
  have rd: "read_resp (board 0 0) [] 3 RELAY8_INPORT_REG_ADD = Some 0"
    by (simp add: board_def outputReg_def RELAY8_INPORT_REG_ADD_def RELAY8_CFG_REG_ADD_def)
  have wr: "write_resp (board 0 0) ([] @ [Read 3 RELAY8_INPORT_REG_ADD (Some 0)]) 3 RELAY8_OUTPORT_REG_ADD
               (0 OR push_bit (relayChRemap ! (unat (2::u8) - 1)) 1)"
    by (simp add: board_def)
  have io: "IOToRelay 0 = 0"
    by (simp add: IOToRelay_bits)
  show ?thesis
    using set_channel_on_isolated [of 2 "board 0 0" 3 "[]" 0, OF _ _ board_writeVisible rd wr]
    by (auto simp: io)
qed

subsection \<open>The exits of the self-test\<close>










subsection \<open>The events of a self-test run\<close>




















text \<open>
  In any round of either loop a failed call ends the loop with \<open>retry = 0\<close>, two rounds of
  fuel being enough, and the sweep then leaves through \<^verbatim>\<open>exit(1)\<close>.
\<close>

lemma testOnLoop_failed_call:
  assumes "0 < retry" "valR AND relVal = 0"
    and "relayChSet e dev ch ON tr = (r1, tr1)" "relayGet e dev tr1 = (r2, tr2)"
    and "isl r1 \<or> isl r2"
  shows "testOnLoop (Suc (Suc fuel)) e dev ch relVal retry valR tr
           = Some (0, if isl r1 then tr1 else tr2)"
  using assms by (cases r1; cases r2) auto

lemma testOffLoop_failed_call:
  assumes "0 < retry" "valR AND relVal \<noteq> 0"
    and "relayChSet e dev ch OFF tr = (r1, tr1)" "relayGet e dev tr1 = (r2, tr2)"
    and "isl r1 \<or> isl r2"
  shows "testOffLoop (Suc (Suc fuel)) e dev ch relVal retry valR tr = Some (0, tr2)"
  using assms by (cases r1; cases r2) (auto simp: Let_def)

lemma sweepOn_retry_zero:
  assumes "thread_resp e tr = 0"
    and "testOnLoop fuel e dev ch (push_bit (unat ch - 1) 1) RETRY_TIMES 0 (tr @ [CheckThread 0])
           = Some (0, tr2)"
  shows "sweepOn fuel e dev (ch # rest) r tr = Some (Inl Exit1, tr2)"
  using assms by (simp add: checkThreadResult_def Let_def)

lemma sweepOff_retry_zero:
  assumes "thread_resp e tr = 0"
    and "testOffLoop fuel e dev ch (push_bit (unat ch - 1) 1) RETRY_TIMES 0xff (tr @ [CheckThread 0])
           = Some (0, tr2)"
  shows "sweepOff fuel e dev (ch # rest) r tr = Some (Inl Exit1, tr2)"
  using assms by (simp add: checkThreadResult_def Let_def)




end
